theory Spec2Isabelle
  imports Complex_Main "HOL-Library.Char_ord" "HOL-Library.List_Lexorder" "HOL-Library.Sublist"
begin

section \<open>Data model\<close>

text \<open>
  The exceptions of the Python code are values. A function that can raise returns a sum
  whose left side carries the exception; where the object was already mutated when the
  exception was raised, the left side also carries the object as it was left.
\<close>

datatype error =
    JSONDecodeError | KeyError | ValueError | OverflowError | ZeroDivisionError
  | AttributeError | IndexError | HTTPError | ComputeError
  | ConnectionClosedError | ConnectError | KeyboardInterrupt

text \<open>
  One line of a klines DataFrame, with the twelve columns of \<open>KLINES_COLUMNS\<close>. Python
  floats are idealised as reals: the code only parses, stores, subtracts, divides and
  compares them. The columns \<open>open_datetime\<close> and \<open>close_datetime\<close> are functions of the
  two timestamps and are left out. A DataFrame is the list of its lines, \<open>is_empty\<close> is
  \<open>= []\<close>, \<open>height\<close> is \<open>length\<close> and \<open>pl.concat\<close> of frames of one schema is \<open>@\<close>.
\<close>

record kline_row =
  open_time :: int
  open_price :: real
  high :: real
  low :: real
  close :: real
  volume :: real
  close_time :: int
  quote_asset_volume :: real
  number_of_trades :: int
  taker_buy_base_volume :: real
  taker_buy_quote_volume :: real
  ignore :: string

text \<open>
  The dictionary \<open>candle_data\<close> that \<open>stream_live_data\<close> builds from one message; its
  keys carry the prefix \<open>c_\<close> here, so that they do not clash with the columns.
\<close>

record candle_data =
  c_open_time :: int
  c_open :: real
  c_high :: real
  c_low :: real
  c_close :: real
  c_volume :: real
  c_close_time :: int
  c_quote_asset_volume :: real
  c_number_of_trades :: int
  c_taker_buy_base_volume :: real
  c_taker_buy_quote_volume :: real
  is_closed :: bool

text \<open>
  What the code prints, one constructor for each \<open>print\<close> of the modelled methods, with
  the values the line shows.
\<close>

datatype line =
    PStreamStart
  | PMessageError error
  | PCandleUpdate bool real real
  | PLiveUpdate bool real real "(real \<times> real) option"
  | PIntegrating int
  | PTotalCandles nat
  | PSaved nat real
  | PNoDataToSave
  | PSaveError error
  | PLoadedToday nat
  | PCombined nat nat
  | PYesterdayWarning error
  | PInitializing
  | PInitialized nat
  | PDateRange int int
  | PNoHistorical
  | PStarting
  | PStartingLive
  | PStopping
  | PSavedBeforeExit
  | PStreamError error

text \<open>
  A \<open>ContinuousDataStreamer\<close> with the attributes that \<open>__init__\<close> sets, together with
  what the process has put out so far: the lines printed and the CSV files written (each
  with the clock reading its name is made of). Clock readings are in seconds. The
  attribute \<open>realtime\<close> is constant; the methods that use it take it as an argument.
\<close>

record streamer =
  symbol :: string
  interval :: string
  save_interval_minutes :: int
  combined_df :: "kline_row list option"
  live_candles :: "candle_data list"
  last_save_time :: real
  stdout :: "line list"
  files :: "(real \<times> kline_row list) list"

type_synonym outcome = "(error \<times> streamer) + streamer"

definition print :: "line \<Rightarrow> streamer \<Rightarrow> streamer" where
  "print l s = s\<lparr>stdout := stdout s @ [l]\<rparr>"

text \<open>
  \<open>ContinuousDataStreamer.__init__\<close>; \<open>now\<close> is the reading of \<open>datetime.now()\<close>.
  The default of \<open>save_interval_minutes\<close> is 5.
\<close>

definition init_streamer :: "string \<Rightarrow> string \<Rightarrow> int \<Rightarrow> real \<Rightarrow> streamer" where
  "init_streamer symb intv minutes now =
     \<lparr>symbol = symb, interval = intv, save_interval_minutes = minutes,
      combined_df = None, live_candles = [], last_save_time = now,
      stdout = [], files = []\<rparr>"

definition default_streamer :: "real \<Rightarrow> streamer" where
  "default_streamer now = init_streamer ''BTCUSDT'' ''1m'' 5 now"

section \<open>The live path of \<open>real_time.py\<close>\<close>

subsection \<open>Persistence\<close>

text \<open>
  \<open>save_data\<close> with \<open>filepath=None\<close>. Everything after the file name is inside
  \<open>try\<close>/\<open>except Exception\<close>, so the method never raises: \<open>is_empty\<close> on the \<open>None\<close>
  that \<open>__init__\<close> leaves in \<open>combined_df\<close> is an AttributeError that is printed.
  The file system is taken to accept the write.
\<close>

definition save_data :: "real \<Rightarrow> streamer \<Rightarrow> streamer" where
  "save_data now s =
     (case combined_df s of
        None \<Rightarrow> print (PSaveError AttributeError) s
      | Some df \<Rightarrow>
          if df \<noteq> [] then print (PSaved (length df) now) (s\<lparr>files := files s @ [(now, df)]\<rparr>)
          else print PNoDataToSave s)"

text \<open>
  \<open>auto_save_check\<close>: \<open>(now - last_save_time).total_seconds() >= save_interval_minutes * 60\<close>.
  The reading \<open>now\<close> taken here and the one \<open>save_data\<close> takes for the file name, right
  after it, are one value in the model.
\<close>

definition auto_save_check :: "real \<Rightarrow> streamer \<Rightarrow> streamer" where
  "auto_save_check now s =
     (if now - last_save_time s \<ge> real_of_int (save_interval_minutes s * 60)
      then (save_data now s)\<lparr>last_save_time := now\<rparr>
      else s)"

subsection \<open>Integration of a closed candle\<close>

definition new_row :: "candle_data \<Rightarrow> kline_row" where
  "new_row c =
     \<lparr>open_time = c_open_time c, open_price = c_open c, high = c_high c, low = c_low c,
      close = c_close c, volume = c_volume c, close_time = c_close_time c,
      quote_asset_volume = c_quote_asset_volume c,
      number_of_trades = c_number_of_trades c,
      taker_buy_base_volume = c_taker_buy_base_volume c,
      taker_buy_quote_volume = c_taker_buy_quote_volume c, ignore = ''''\<rparr>"

text \<open>
  \<open>integrate_closed_candle\<close>: the new line goes to the end of \<open>combined_df\<close>; nothing
  is looked up, replaced or sorted. On \<open>combined_df = None\<close> the call of \<open>is_empty\<close>
  raises, after the first \<open>print\<close>.
\<close>

definition integrate_closed_candle :: "candle_data \<Rightarrow> streamer \<Rightarrow> outcome" where
  "integrate_closed_candle c s =
     (let s1 = print (PIntegrating (c_close_time c)) s in
      case combined_df s1 of
        None \<Rightarrow> Inl (AttributeError, s1)
      | Some df \<Rightarrow>
          let df' = (if df = [] then [new_row c] else df @ [new_row c]);
              s2 = s1\<lparr>combined_df := Some df'\<rparr>
          in Inr (print (PTotalCandles (length df')) s2))"

subsection \<open>One live update\<close>

text \<open>
  The price change shown when the buffer holds more than one candle. Dividing a Python
  float by \<open>0.0\<close> raises ZeroDivisionError.
\<close>

definition price_change :: "candle_data list \<Rightarrow> candle_data \<Rightarrow> error + (real \<times> real) option" where
  "price_change buf c =
     (if length buf > 1 then
        let prev_close = c_close (buf ! (length buf - 2));
            current_close = c_close c;
            change = current_close - prev_close
        in if prev_close = 0 then Inl ZeroDivisionError
           else Inr (Some (change, (change / prev_close) * 100))
      else Inr None)"

text \<open>
  \<open>handle_live_candle\<close>; \<open>now\<close> is the clock reading of this call. The candle is
  appended to \<open>live_candles\<close> first, whatever happens later.
\<close>

definition handle_live_candle :: "candle_data \<Rightarrow> real \<Rightarrow> streamer \<Rightarrow> outcome" where
  "handle_live_candle c now s =
     (let s1 = s\<lparr>live_candles := live_candles s @ [c]\<rparr> in
      case price_change (live_candles s1) c of
        Inl e \<Rightarrow> Inl (e, s1)
      | Inr pc \<Rightarrow>
          let s2 = print (PLiveUpdate (is_closed c) (c_close c) (c_volume c) pc) s1 in
          if is_closed c then
            (case integrate_closed_candle c s2 of
               Inl es \<Rightarrow> Inl es
             | Inr s3 \<Rightarrow> Inr (auto_save_check now s3))
          else Inr (auto_save_check now s2))"

subsection \<open>The feed\<close>

text \<open>
  A message of the feed. \<open>NotJson\<close> is a text that \<open>json.loads\<close> rejects, \<open>NoKline\<close> a
  JSON value without the key \<open>k\<close>, and \<open>Envelope\<close> carries the object under \<open>k\<close>: each
  field is \<open>None\<close> when its key is missing; \<open>t\<close>, \<open>T\<close> and \<open>n\<close> are JSON integers, \<open>x\<close>
  a JSON boolean, and the other fields JSON strings or numbers, as the feed sends them.
\<close>

datatype jnum = JText string | JNumber real

record kline_msg =
  k_t :: "int option"
  k_o :: "jnum option"
  k_h :: "jnum option"
  k_l :: "jnum option"
  k_c :: "jnum option"
  k_v :: "jnum option"
  k_T :: "int option"
  k_q :: "jnum option"
  k_n :: "int option"
  k_V :: "jnum option"
  k_Q :: "jnum option"
  k_x :: "bool option"

datatype message = NotJson | NoKline | Envelope kline_msg

text \<open>
  The two built-ins whose results the code depends on are parameters: \<open>float\<close> on a
  string (\<open>None\<close> where it raises ValueError) and whether \<open>datetime.fromtimestamp\<close>
  accepts a timestamp, given here in milliseconds (it raises outside the platform's range).
\<close>

record builtins =
  float_str :: "string \<Rightarrow> real option"
  fromtimestamp_ok :: "int \<Rightarrow> bool"

definition bind :: "error + 'a \<Rightarrow> ('a \<Rightarrow> error + 'b) \<Rightarrow> error + 'b" where
  "bind m f = (case m of Inl e \<Rightarrow> Inl e | Inr x \<Rightarrow> f x)"

definition item :: "'a option \<Rightarrow> error + 'a" where
  "item v = (case v of None \<Rightarrow> Inl KeyError | Some x \<Rightarrow> Inr x)"

definition py_float :: "builtins \<Rightarrow> jnum option \<Rightarrow> error + real" where
  "py_float py v =
     bind (item v) (\<lambda>j. case j of
        JNumber r \<Rightarrow> Inr r
      | JText t \<Rightarrow> (case float_str py t of None \<Rightarrow> Inl ValueError | Some r \<Rightarrow> Inr r))"

definition fromtimestamp :: "builtins \<Rightarrow> int \<Rightarrow> error + unit" where
  "fromtimestamp py ms = (if fromtimestamp_ok py ms then Inr () else Inl OverflowError)"

text \<open>
  The body of the \<open>try\<close> block up to the call of the callback: the entries are evaluated
  in the order of the dictionary display, and the first one that raises decides.
\<close>

definition parse_message :: "builtins \<Rightarrow> message \<Rightarrow> error + candle_data" where
  "parse_message py m =
     (case m of
        NotJson \<Rightarrow> Inl JSONDecodeError
      | NoKline \<Rightarrow> Inl KeyError
      | Envelope k \<Rightarrow>
          bind (item (k_t k)) (\<lambda>vt.
          bind (py_float py (k_o k)) (\<lambda>vo.
          bind (py_float py (k_h k)) (\<lambda>vh.
          bind (py_float py (k_l k)) (\<lambda>vl.
          bind (py_float py (k_c k)) (\<lambda>vc.
          bind (py_float py (k_v k)) (\<lambda>vv.
          bind (item (k_T k)) (\<lambda>vT.
          bind (py_float py (k_q k)) (\<lambda>vq.
          bind (item (k_n k)) (\<lambda>vn.
          bind (py_float py (k_V k)) (\<lambda>vV.
          bind (py_float py (k_Q k)) (\<lambda>vQ.
          bind (item (k_x k)) (\<lambda>vx.
          bind (fromtimestamp py vt) (\<lambda>_.
          bind (fromtimestamp py vT) (\<lambda>_.
            Inr \<lparr>c_open_time = vt, c_open = vo, c_high = vh, c_low = vl, c_close = vc,
                 c_volume = vv, c_close_time = vT, c_quote_asset_volume = vq,
                 c_number_of_trades = vn, c_taker_buy_base_volume = vV,
                 c_taker_buy_quote_volume = vQ, is_closed = vx\<rparr>)))))))))))))))"

definition print_candle_update :: "candle_data \<Rightarrow> streamer \<Rightarrow> streamer" where
  "print_candle_update c s = print (PCandleUpdate (is_closed c) (c_close c) (c_volume c)) s"

type_synonym callback = "candle_data \<Rightarrow> real \<Rightarrow> streamer \<Rightarrow> outcome"

text \<open>
  One turn of \<open>async for message in websocket\<close>: the message comes with the clock reading
  of its handling. \<open>except Exception\<close> is inside the loop and around the callback too,
  so whatever the parsing or the callback raises is printed and the loop goes on, with
  the object as the callback left it.
\<close>

definition on_message :: "builtins \<Rightarrow> callback option \<Rightarrow> message \<times> real \<Rightarrow> streamer \<Rightarrow> streamer" where
  "on_message py cb mt s =
     (case parse_message py (fst mt) of
        Inl e \<Rightarrow> print (PMessageError e) s
      | Inr c \<Rightarrow>
          (case cb of
             Some f \<Rightarrow>
               (case f c (snd mt) s of
                  Inl (e, s') \<Rightarrow> print (PMessageError e) s'
                | Inr s' \<Rightarrow> s')
           | None \<Rightarrow> print_candle_update c s))"

fun receive :: "builtins \<Rightarrow> callback option \<Rightarrow> (message \<times> real) list \<Rightarrow> streamer \<Rightarrow> streamer" where
  "receive py cb [] s = s"
| "receive py cb (mt # rest) s = receive py cb rest (on_message py cb mt s)"

text \<open>
  How a connection ends: the server closes it normally and the loop is left, it breaks
  and the iteration raises, or the process is interrupted. A connection attempt either
  fails or gives the messages received until the end. A connection that stays open for
  ever has no end and no final state; what the code has done after any finite number of
  its messages is \<open>receive\<close> on them.
\<close>

datatype ending = ClosedOK | ClosedError | Interrupted

datatype connection = Refused | Connected "(message \<times> real) list" ending

definition stream_live_data :: "builtins \<Rightarrow> callback option \<Rightarrow> connection \<Rightarrow> streamer \<Rightarrow> outcome" where
  "stream_live_data py cb conn s =
     (let s0 = print PStreamStart s in
      case conn of
        Refused \<Rightarrow> Inl (ConnectError, s0)
      | Connected msgs e \<Rightarrow>
          let s1 = receive py cb msgs s0 in
          (case e of
             ClosedOK \<Rightarrow> Inr s1
           | ClosedError \<Rightarrow> Inl (ConnectionClosedError, s1)
           | Interrupted \<Rightarrow> Inl (KeyboardInterrupt, s1)))"

section \<open>The archive loader of \<open>data_processor.py\<close>\<close>

text \<open>
  A \<open>BulkDataDownloader\<close> with the attributes that \<open>get_prefix\<close> reads.
\<close>

record downloader =
  market :: string
  timeframe :: string
  data_type :: string
  d_symbol :: string
  d_interval :: string

definition get_prefix :: "downloader \<Rightarrow> string" where
  "get_prefix d =
     ''data/'' @ market d @ ''/'' @ timeframe d @ ''/'' @ data_type d @ ''/'' @ d_symbol d
       @ ''/'' @ d_interval d @ ''/''"

text \<open>
  One page of the bucket listing: the texts of the \<open>Key\<close> elements in document order,
  whether the text of \<open>IsTruncated\<close> is \<open>true\<close> in lower case (\<open>None\<close> when the element
  is missing), and the text of \<open>NextContinuationToken\<close> (\<open>None\<close> when it is missing).
  The bucket answers a request, made of the prefix and the continuation token when one
  is sent, with a page or with a failure (\<open>raise_for_status\<close>, or XML that does not
  parse).
\<close>

record page =
  keys :: "string list"
  is_truncated :: "bool option"
  next_token :: "string option"

type_synonym bucket = "string \<Rightarrow> string option \<Rightarrow> error + page"

definition endswith :: "string \<Rightarrow> string \<Rightarrow> bool" where
  "endswith s suf = prefix (rev suf) (rev s)"

text \<open>
  The \<open>while True\<close> loop of \<open>get_file_list_from_s3_bucket\<close>. The token is sent only
  when it is truthy (\<open>if continuation_token\<close>), so an empty token asks for the first
  page again. The loop ends when the bucket stops saying that the listing is truncated,
  or says so without a token; a bucket that never does keeps the loop running, and the
  value is \<open>None\<close>.
\<close>

partial_function (option) list_pages ::
  "bucket \<Rightarrow> string \<Rightarrow> string option \<Rightarrow> string list \<Rightarrow> (error + string list) option" where
  "list_pages srv pre continuation_token filenames =
     (case srv pre (case continuation_token of
                      None \<Rightarrow> None
                    | Some tok \<Rightarrow> if tok \<noteq> [] then Some tok else None) of
        Inl e \<Rightarrow> Some (Inl e)
      | Inr pg \<Rightarrow>
          (let filenames' = filenames @ filter (\<lambda>key. endswith key ''.zip'') (keys pg) in
           if is_truncated pg = Some True then
             (case next_token pg of
                Some tok \<Rightarrow> list_pages srv pre (Some tok) filenames'
              | None \<Rightarrow> Some (Inr filenames'))
           else Some (Inr filenames')))"

text \<open>
  After the loop, \<open>filenames.sort()\<close>: strings compare by code point, the shorter of
  two strings first when it is a prefix of the other.
\<close>

definition get_file_list_from_s3_bucket :: "bucket \<Rightarrow> string \<Rightarrow> (error + string list) option" where
  "get_file_list_from_s3_bucket srv pre =
     (case list_pages srv pre None [] of
        None \<Rightarrow> None
      | Some (Inl e) \<Rightarrow> Some (Inl e)
      | Some (Inr filenames) \<Rightarrow> Some (Inr (sort filenames)))"

definition BINANCE_DATA_DOWNLOAD_BASE_URL :: string where
  "BINANCE_DATA_DOWNLOAD_BASE_URL = ''https://data.binance.vision''"

definition create_download_urls :: "string list \<Rightarrow> string list" where
  "create_download_urls filenames =
     map (\<lambda>filename. BINANCE_DATA_DOWNLOAD_BASE_URL @ ''/'' @ filename) filenames"

text \<open>
  The content of a member of a zip file is either the text of a table that \<open>read_csv\<close>
  reads with the klines schema, or one that it (or the decoding before it) rejects. A
  download gives the members of the zip file, with their names, or fails.
\<close>

datatype content = Table "kline_row list" | Unreadable

type_synonym web = "string \<Rightarrow> error + (string \<times> content) list"

text \<open>
  \<open>download_file\<close> returns the content of the first member whose name ends with
  \<open>.csv\<close>, and \<open>None\<close> when there is none.
\<close>

definition download_file :: "web \<Rightarrow> string \<Rightarrow> error + content option" where
  "download_file w url =
     (case w url of
        Inl e \<Rightarrow> Inl e
      | Inr members \<Rightarrow>
          Inr (map_option snd (find (\<lambda>member. endswith (fst member) ''.csv'') members)))"

text \<open>
  \<open>pl.read_csv(io.StringIO(csv_content.decode('utf-8')), ...)\<close>: \<open>decode\<close> on \<open>None\<close>
  is an AttributeError.
\<close>

definition read_csv :: "content option \<Rightarrow> error + kline_row list" where
  "read_csv csv_content =
     (case csv_content of
        None \<Rightarrow> Inl AttributeError
      | Some Unreadable \<Rightarrow> Inl ComputeError
      | Some (Table rows) \<Rightarrow> Inr rows)"

text \<open>
  The Python slice \<open>xs[:n]\<close>, with a negative \<open>n\<close> counting from the end.
\<close>

definition slice_to :: "int \<Rightarrow> 'a list \<Rightarrow> 'a list" where
  "slice_to n xs = (if 0 \<le> n then take (nat n) xs else take (length xs - nat (- n)) xs)"

text \<open>
  The loop \<open>for url in download_urls[1:]\<close>, which appends each further file to \<open>df\<close>.
\<close>

fun download_rest :: "web \<Rightarrow> string list \<Rightarrow> kline_row list \<Rightarrow> error + kline_row list" where
  "download_rest w [] df = Inr df"
| "download_rest w (url # urls) df =
     bind (bind (download_file w url) read_csv) (\<lambda>temp_df. download_rest w urls (df @ temp_df))"

text \<open>
  \<open>get_polars_df\<close>. The first file of the sorted listing is read before \<open>nfiles\<close> is
  looked at; \<open>download_urls[0]\<close> on an empty listing is an IndexError. The two datetime
  columns added at the end need \<open>datetime.fromtimestamp\<close> on every line.
\<close>

definition get_polars_df ::
  "builtins \<Rightarrow> bucket \<Rightarrow> web \<Rightarrow> downloader \<Rightarrow> int option \<Rightarrow> (error + kline_row list) option" where
  "get_polars_df py srv w d nfiles =
     (case get_file_list_from_s3_bucket srv (get_prefix d) of
        None \<Rightarrow> None
      | Some (Inl e) \<Rightarrow> Some (Inl e)
      | Some (Inr filenames) \<Rightarrow>
          Some
           (let download_urls = create_download_urls filenames in
            case download_urls of
              [] \<Rightarrow> Inl IndexError
            | url0 # _ \<Rightarrow>
                bind (bind (download_file w url0) read_csv) (\<lambda>df0.
                bind (download_rest w
                        (drop 1 (case nfiles of
                                   None \<Rightarrow> download_urls
                                 | Some n \<Rightarrow> slice_to n download_urls)) df0) (\<lambda>df.
                  if list_all (\<lambda>r. fromtimestamp_ok py (open_time r)
                                    \<and> fromtimestamp_ok py (close_time r)) df
                  then Inr df else Inl OverflowError))))"

section \<open>The backfill of \<open>real_time.py\<close>\<close>

text \<open>
  A line of the answer of the klines endpoint: the numeric fields are text.
\<close>

record rest_row =
  r_open_time :: int
  r_open :: string
  r_high :: string
  r_low :: string
  r_close :: string
  r_volume :: string
  r_close_time :: int
  r_quote_asset_volume :: string
  r_number_of_trades :: int
  r_taker_buy_base_volume :: string
  r_taker_buy_quote_volume :: string
  r_ignore :: string

text \<open>
  What the process finds around it: the built-ins, the cast of a text column to
  \<open>Float64\<close> (\<open>None\<close> where the strict cast raises), the timestamp of today's midnight
  in milliseconds, the klines endpoint (asked with symbol, interval, start time and
  limit; it fails or answers with a JSON array), the bucket, the download server, and
  what each attempt to connect to the feed gives, numbered from 0, with the clock
  reading at its end.
\<close>

record env =
  builtin_fns :: builtins
  cast_float64 :: "string \<Rightarrow> real option"
  today_start :: int
  klines_api :: "string \<Rightarrow> string \<Rightarrow> int \<Rightarrow> nat \<Rightarrow> error + rest_row list"
  s3 :: bucket
  download_server :: web
  socket :: "nat \<Rightarrow> connection \<times> real"

text \<open>
  A \<open>BinanceRealtimeData\<close>: the symbol, the interval, and the downloader that
  \<open>__init__\<close> builds with the time frame \<open>daily\<close>. The symbol is given in upper case;
  \<open>lower\<close> and \<open>upper\<close> only change the case of the names in the requests.
\<close>

record realtime =
  rt_symbol :: string
  rt_interval :: string
  historical_downloader :: downloader

definition init_realtime :: "string \<Rightarrow> string \<Rightarrow> realtime" where
  "init_realtime symb intv =
     \<lparr>rt_symbol = symb, rt_interval = intv,
      historical_downloader =
        \<lparr>market = ''spot'', timeframe = ''daily'', data_type = ''klines'',
         d_symbol = symb, d_interval = intv\<rparr>\<rparr>"

definition cast_row :: "(string \<Rightarrow> real option) \<Rightarrow> rest_row \<Rightarrow> kline_row option" where
  "cast_row f r =
     (case (f (r_open r), f (r_high r), f (r_low r), f (r_close r), f (r_volume r),
            f (r_quote_asset_volume r), f (r_taker_buy_base_volume r),
            f (r_taker_buy_quote_volume r)) of
        (Some vo, Some vh, Some vl, Some vc, Some vv, Some vq, Some vb, Some vt) \<Rightarrow>
          Some \<lparr>open_time = r_open_time r, open_price = vo, high = vh, low = vl, close = vc,
                volume = vv, close_time = r_close_time r, quote_asset_volume = vq,
                number_of_trades = r_number_of_trades r, taker_buy_base_volume = vb,
                taker_buy_quote_volume = vt, ignore = r_ignore r\<rparr>
      | _ \<Rightarrow> None)"

text \<open>
  \<open>get_historical_today_data\<close>, returning the frame and the line it prints. An answer
  without lines gives the empty frame.
\<close>

definition get_historical_today_data :: "env \<Rightarrow> realtime \<Rightarrow> error + kline_row list \<times> line list" where
  "get_historical_today_data e rt =
     (case klines_api e (rt_symbol rt) (rt_interval rt) (today_start e) 1000 of
        Inl err \<Rightarrow> Inl err
      | Inr data \<Rightarrow>
          if data \<noteq> [] then
            (if list_all (\<lambda>r. cast_row (cast_float64 e) r \<noteq> None) data
             then let df = map (\<lambda>r. the (cast_row (cast_float64 e) r)) data
                  in Inr (df, [PLoadedToday (length df)])
             else Inl ComputeError)
          else Inr ([], []))"

text \<open>
  The Polars method \<open>tail(n)\<close>: the last \<open>n\<close> lines.
\<close>

definition tail :: "nat \<Rightarrow> 'a list \<Rightarrow> 'a list" where
  "tail n xs = drop (length xs - n) xs"

text \<open>
  \<open>get_complete_today_data\<close>. Today's frame is fetched outside the \<open>try\<close>; whatever
  the archive loader raises inside it is printed as a warning and today's frame is
  returned alone. The loader is called with \<open>nfiles=1\<close>. The frame of the archive and
  today's frame are taken to have one schema, so that \<open>pl.concat\<close> joins them.
\<close>

definition get_complete_today_data ::
  "env \<Rightarrow> realtime \<Rightarrow> (error + kline_row list \<times> line list) option" where
  "get_complete_today_data e rt =
     (case get_historical_today_data e rt of
        Inl err \<Rightarrow> Some (Inl err)
      | Inr (today_df, out) \<Rightarrow>
          (case get_polars_df (builtin_fns e) (s3 e) (download_server e) (historical_downloader rt) (Some 1) of
             None \<Rightarrow> None
           | Some (Inl err) \<Rightarrow> Some (Inr (today_df, out @ [PYesterdayWarning err]))
           | Some (Inr yesterday_df) \<Rightarrow>
               if yesterday_df \<noteq> [] then
                 let yesterday_last = tail 10 yesterday_df;
                     complete_df = yesterday_last @ today_df
                 in Some (Inr (complete_df,
                               out @ [PCombined (length yesterday_last) (length today_df)]))
               else Some (Inr (today_df, out))))"

section \<open>The orchestrator of \<open>real_time.py\<close>\<close>

text \<open>
  \<open>initialize_data\<close>, on a streamer whose \<open>realtime\<close> attribute is \<open>rt\<close>.
\<close>

definition initialize_data :: "env \<Rightarrow> realtime \<Rightarrow> streamer \<Rightarrow> outcome option" where
  "initialize_data e rt s =
     (let s1 = print PInitializing s in
      case get_complete_today_data e rt of
        None \<Rightarrow> None
      | Some (Inl err) \<Rightarrow> Some (Inl (err, s1))
      | Some (Inr (df, out)) \<Rightarrow>
          let s2 = s1\<lparr>combined_df := Some df, stdout := stdout s1 @ out\<rparr> in
          if df \<noteq> [] then
            Some (Inr (print (PDateRange (Min (set (map open_time df)))
                                         (Max (set (map open_time df))))
                        (print (PInitialized (length df)) s2)))
          else Some (Inr ((print PNoHistorical s2)\<lparr>combined_df := Some []\<rparr>)))"


section \<open>Sample inputs and auxiliary notions\<close>

text \<open>
  The object as a call leaves it, whether the call returned or raised.
\<close>

definition after :: "outcome \<Rightarrow> streamer" where
  "after r = (case r of Inl (e, s) \<Rightarrow> s | Inr s \<Rightarrow> s)"

text \<open>
  The configured period in seconds, the clock readings of the files written so far, and
  what it means for readings to lie at least a period apart, each from all later ones.
  The invariant of the auto-save: no file is later than \<open>last_save_time\<close>, and the files
  are a period apart.
\<close>

definition period :: "streamer \<Rightarrow> real" where
  "period s = real_of_int (save_interval_minutes s * 60)"

definition spaced :: "real \<Rightarrow> real list \<Rightarrow> bool" where
  "spaced p ts = sorted_wrt (\<lambda>a b. p \<le> b - a) ts"

definition save_times :: "streamer \<Rightarrow> real list" where
  "save_times s = map fst (files s)"

definition save_inv :: "streamer \<Rightarrow> bool" where
  "save_inv s \<longleftrightarrow> list_all (\<lambda>t. t \<le> last_save_time s) (save_times s)
                 \<and> spaced (period s) (save_times s)"


text \<open>
  The token that a request of the listing loop carries, and the condition under which the
  two datetime columns of a frame can be computed.
\<close>

definition sent :: "string option \<Rightarrow> string option" where
  "sent continuation_token =
     (case continuation_token of
        None \<Rightarrow> None
      | Some tok \<Rightarrow> if tok \<noteq> [] then Some tok else None)"

definition rows_ok :: "builtins \<Rightarrow> kline_row list \<Rightarrow> bool" where
  "rows_ok py df =
     list_all (\<lambda>r. fromtimestamp_ok py (open_time r) \<and> fromtimestamp_ok py (close_time r)) df"

text \<open>
  Concrete inputs on which the theorems below are instantiated: built-ins that read two
  decimal texts and accept the timestamps of the years 1970 to 9999, a feed message and
  the candle it parses to, and a streamer whose dataset has been initialised.
\<close>

definition sample_py :: builtins where
  "sample_py =
     \<lparr>float_str = (\<lambda>t. if t = ''100'' then Some 100 else if t = ''101'' then Some 101 else None),
      fromtimestamp_ok = (\<lambda>ms. 0 \<le> ms \<and> ms < 253402300800000)\<rparr>"

definition kline :: "int \<Rightarrow> real \<Rightarrow> bool \<Rightarrow> kline_msg" where
  "kline t c x =
     \<lparr>k_t = Some t, k_o = Some (JNumber c), k_h = Some (JNumber c), k_l = Some (JNumber c),
      k_c = Some (JNumber c), k_v = Some (JNumber 1), k_T = Some (t + 999),
      k_q = Some (JNumber c), k_n = Some 1, k_V = Some (JNumber 0), k_Q = Some (JNumber 0),
      k_x = Some x\<rparr>"

definition candle :: "int \<Rightarrow> real \<Rightarrow> bool \<Rightarrow> candle_data" where
  "candle t c x =
     \<lparr>c_open_time = t, c_open = c, c_high = c, c_low = c, c_close = c, c_volume = 1,
      c_close_time = t + 999, c_quote_asset_volume = c, c_number_of_trades = 1,
      c_taker_buy_base_volume = 0, c_taker_buy_quote_volume = 0, is_closed = x\<rparr>"

definition seeded :: "kline_row list \<Rightarrow> streamer" where
  "seeded df = (default_streamer 0)\<lparr>combined_df := Some df\<rparr>"

text \<open>
  A message whose close price is a text that \<open>float\<close> rejects.
\<close>

definition malformed :: message where
  "malformed = Envelope ((kline 2000 101 True)\<lparr>k_c := Some (JText ''abc'')\<rparr>)"

text \<open>
  An archive for the loader: the prefix and the downloader of the symbol \<open>BTCUSDT\<close> at
  the interval \<open>1m\<close>, two daily files, and the lines they hold.
\<close>

definition archive_prefix :: string where
  "archive_prefix = ''data/spot/daily/klines/BTCUSDT/1m/''"

definition day1 :: string where
  "day1 = archive_prefix @ ''BTCUSDT-1m-2024-01-01.zip''"

definition day2 :: string where
  "day2 = archive_prefix @ ''BTCUSDT-1m-2024-01-02.zip''"

text \<open>
  A bucket that lists the two files, each with its checksum file, on two pages.
\<close>

definition two_days :: bucket where
  "two_days pre tok =
     (if pre \<noteq> archive_prefix then Inl HTTPError
      else if tok = None then
        Inr \<lparr>keys = [day1, day1 @ ''.CHECKSUM''], is_truncated = Some True,
             next_token = Some ''page2''\<rparr>
      else if tok = Some ''page2'' then
        Inr \<lparr>keys = [day2, day2 @ ''.CHECKSUM''], is_truncated = Some False,
             next_token = None\<rparr>
      else Inl HTTPError)"

definition row :: "int \<Rightarrow> kline_row" where
  "row t = new_row (candle t 100 True)"

definition two_days_web :: web where
  "two_days_web url =
     (if url = BINANCE_DATA_DOWNLOAD_BASE_URL @ ''/'' @ day1
        then Inr [(''BTCUSDT-1m-2024-01-01.csv'', Table [row 1000, row 2000])]
      else if url = BINANCE_DATA_DOWNLOAD_BASE_URL @ ''/'' @ day2
        then Inr [(''BTCUSDT-1m-2024-01-02.csv'', Table [row 3000, row 4000])]
      else Inl HTTPError)"

definition sample_downloader :: downloader where
  "sample_downloader = historical_downloader (init_realtime ''BTCUSDT'' ''1m'')"


definition sample_cast :: "string \<Rightarrow> real option" where
  "sample_cast t =
     (if t = ''100'' then Some 100 else if t = ''1'' then Some 1
      else if t = ''0'' then Some 0 else None)"



definition sample_env ::
  "rest_row list \<Rightarrow> bucket \<Rightarrow> (nat \<Rightarrow> connection \<times> real) \<Rightarrow> env" where
  "sample_env answer srv feed =
     \<lparr>builtin_fns = sample_py, cast_float64 = sample_cast, today_start = 5000,
      klines_api = (\<lambda>symb intv start limit. Inr answer), s3 = srv,
      download_server = two_days_web, socket = feed\<rparr>"

definition sample_rt :: realtime where
  "sample_rt = init_realtime ''BTCUSDT'' ''1m''"


section \<open>Properties of the live path\<close>

subsection \<open>Auxiliary lemmas\<close>

lemma print_fields [simp]:
  "combined_df (print l s) = combined_df s"
  "live_candles (print l s) = live_candles s"
  "last_save_time (print l s) = last_save_time s"
  "save_interval_minutes (print l s) = save_interval_minutes s"
  "files (print l s) = files s"
  by (simp_all add: print_def)

lemma save_data_fields [simp]:
  "combined_df (save_data now s) = combined_df s"
  "live_candles (save_data now s) = live_candles s"
  "save_interval_minutes (save_data now s) = save_interval_minutes s"
  by (simp_all add: save_data_def split: option.splits)

lemma auto_save_check_fields [simp]:
  "combined_df (auto_save_check now s) = combined_df s"
  "live_candles (auto_save_check now s) = live_candles s"
  "save_interval_minutes (auto_save_check now s) = save_interval_minutes s"
  by (simp_all add: auto_save_check_def)


lemma handle_live_candle_buffer:
  "live_candles (after (handle_live_candle c now s)) = live_candles s @ [c]"
  by (auto simp: handle_live_candle_def after_def Let_def integrate_closed_candle_def
      split: sum.splits option.splits)

lemma handle_live_candle_open:
  "\<not> is_closed c \<Longrightarrow> combined_df (after (handle_live_candle c now s)) = combined_df s"
  by (auto simp: handle_live_candle_def after_def Let_def split: sum.splits)






lemma parse_kline:
  "0 \<le> t \<Longrightarrow> t < 253402300800000 - 999 \<Longrightarrow>
   parse_message sample_py (Envelope (kline t c x)) = Inr (candle t c x)"
  by (simp add: parse_message_def kline_def candle_def sample_py_def bind_def item_def
      py_float_def fromtimestamp_def)



lemma receive_append:
  "receive py cb (xs @ ys) s = receive py cb ys (receive py cb xs s)"
  by (induction xs arbitrary: s) simp_all

lemma parse_malformed: "parse_message sample_py malformed = Inl ValueError"
  by (simp add: malformed_def parse_message_def kline_def sample_py_def bind_def item_def
      py_float_def)

lemma print_more [simp]:
  "save_times (print l s) = save_times s" "period (print l s) = period s"
  by (simp_all add: save_times_def period_def)

lemma save_inv_print [simp]: "save_inv (print l s) = save_inv s"
  by (simp add: save_inv_def)

lemma save_data_more [simp]:
  "last_save_time (save_data now s) = last_save_time s" "period (save_data now s) = period s"
  by (simp_all add: save_data_def period_def print_def split: option.splits)












subsection \<open>What a sequence of updates leaves in the Series\<close>




subsection \<open>Applying the same candle twice\<close>




subsection \<open>The order of the Series\<close>




subsection \<open>Updates that are still forming\<close>

text \<open>
  Claim C9. Whether \<open>handle_live_candle\<close> returns or raises, it has appended the update
  to \<open>live_candles\<close>; and when the update's \<open>is_closed\<close> is false, \<open>combined_df\<close> is
  what it was before the call. So the main dataset changes only on an update with
  \<open>is_closed\<close> true.
\<close>

theorem forming_update_leaves_dataset:
  "(\<not> is_closed c \<longrightarrow> combined_df (after (handle_live_candle c now s)) = combined_df s)
   \<and> live_candles (after (handle_live_candle c now s)) = live_candles s @ [c]"
  using handle_live_candle_open [of c now s] handle_live_candle_buffer [of c now s] by simp

theorem forming_update_leaves_dataset_witness:
  "\<not> is_closed (candle 2000 101 False)
   \<and> combined_df (after (handle_live_candle (candle 2000 101 False) 1
        (seeded [new_row (candle 1000 100 True)]))) = Some [new_row (candle 1000 100 True)]
   \<and> live_candles (after (handle_live_candle (candle 2000 101 False) 1
        (seeded [new_row (candle 1000 100 True)]))) = [candle 2000 101 False]"
  using forming_update_leaves_dataset [of "candle 2000 101 False" 1
      "seeded [new_row (candle 1000 100 True)]"]
  by (simp add: candle_def seeded_def default_streamer_def init_streamer_def)

subsection \<open>A message that does not parse\<close>

text \<open>
  Claim C6. A message on which the body of the \<open>try\<close> block raises before the callback
  is reached leaves the object as it was, apart from the line that reports the error;
  the messages that follow it on the same connection are handled as before, and the
  stream does not end because of it. This holds for every callback.
\<close>

theorem malformed_message_skipped:
  assumes "parse_message py m = Inl err"
  shows "on_message py cb (m, t) s = print (PMessageError err) s
     \<and> receive py cb (pre @ (m, t) # post) s
         = receive py cb post (print (PMessageError err) (receive py cb pre s))
     \<and> stream_live_data py cb (Connected (pre @ (m, t) # post) ClosedOK) s
         = Inr (receive py cb post
                  (print (PMessageError err) (receive py cb pre (print PStreamStart s))))"
proof -
  have 1: "on_message py cb (m, t) s' = print (PMessageError err) s'" for s'
    using assms by (simp add: on_message_def)
  have 2: "receive py cb (pre @ (m, t) # post) s'
         = receive py cb post (print (PMessageError err) (receive py cb pre s'))" for s'
    by (simp add: receive_append 1)
  show ?thesis using 1 2 by (simp add: stream_live_data_def Let_def)
qed

theorem malformed_message_skipped_witness:
  "parse_message sample_py malformed = Inl ValueError
   \<and> on_message sample_py (Some handle_live_candle) (malformed, 2) (seeded [])
        = print (PMessageError ValueError) (seeded [])
   \<and> stream_live_data sample_py (Some handle_live_candle)
        (Connected ([(Envelope (kline 1000 100 True), 1)] @ (malformed, 2)
                      # [(Envelope (kline 3000 101 True), 3)]) ClosedOK) (seeded [])
       = Inr (receive sample_py (Some handle_live_candle) [(Envelope (kline 3000 101 True), 3)]
               (print (PMessageError ValueError)
                 (receive sample_py (Some handle_live_candle) [(Envelope (kline 1000 100 True), 1)]
                   (print PStreamStart (seeded [])))))
   \<and> map_option (map open_time)
        (combined_df (after (stream_live_data sample_py (Some handle_live_candle)
          (Connected ([(Envelope (kline 1000 100 True), 1)] @ (malformed, 2)
                      # [(Envelope (kline 3000 101 True), 3)]) ClosedOK) (seeded []))))
       = Some [1000, 3000]"
proof -
  note m = malformed_message_skipped [OF parse_malformed, of "Some handle_live_candle" 2
      "seeded []" "[(Envelope (kline 1000 100 True), 1)]" "[(Envelope (kline 3000 101 True), 3)]"]
  have "map_option (map open_time)
        (combined_df (after (Inr (receive sample_py (Some handle_live_candle) [(Envelope (kline 3000 101 True), 3)]
               (print (PMessageError ValueError)
                 (receive sample_py (Some handle_live_candle) [(Envelope (kline 1000 100 True), 1)]
                   (print PStreamStart (seeded []))))))))
       = Some [1000, 3000]"
    by (simp add: parse_kline on_message_def handle_live_candle_def price_change_def
      integrate_closed_candle_def auto_save_check_def save_data_def print_def new_row_def
      candle_def seeded_def default_streamer_def init_streamer_def Let_def after_def)
  with m parse_malformed show ?thesis by simp
qed

subsection \<open>When the dataset is saved\<close>




section \<open>Properties of the archive loader and the backfill\<close>

subsection \<open>Auxiliary lemmas\<close>


lemma list_pages_last:
  "srv pre (sent tok) = Inr pg \<Longrightarrow> is_truncated pg \<noteq> Some True \<or> next_token pg = None \<Longrightarrow>
   list_pages srv pre tok fs = Some (Inr (fs @ filter (\<lambda>key. endswith key ''.zip'') (keys pg)))"
  by (subst list_pages.simps) (auto simp: sent_def Let_def)

lemma list_pages_next:
  "srv pre (sent tok) = Inr pg \<Longrightarrow> is_truncated pg = Some True \<Longrightarrow> next_token pg = Some tok' \<Longrightarrow>
   list_pages srv pre tok fs
     = list_pages srv pre (Some tok') (fs @ filter (\<lambda>key. endswith key ''.zip'') (keys pg))"
  by (subst list_pages.simps) (simp add: sent_def Let_def)

lemma two_days_pages: "list_pages two_days archive_prefix None [] = Some (Inr [day1, day2])"
proof -
  have 1: "two_days archive_prefix (sent None)
      = Inr \<lparr>keys = [day1, day1 @ ''.CHECKSUM''], is_truncated = Some True,
             next_token = Some ''page2''\<rparr>"
    by (simp add: two_days_def sent_def)
  have 2: "two_days archive_prefix (sent (Some ''page2''))
      = Inr \<lparr>keys = [day2, day2 @ ''.CHECKSUM''], is_truncated = Some False,
             next_token = None\<rparr>"
    by (simp add: two_days_def sent_def)
  have z: "endswith day1 ''.zip''" "endswith day2 ''.zip''"
    "\<not> endswith (day1 @ ''.CHECKSUM'') ''.zip''" "\<not> endswith (day2 @ ''.CHECKSUM'') ''.zip''"
    by (simp_all add: endswith_def day1_def day2_def)
  show ?thesis
    using list_pages_next [where srv = two_days and pre = archive_prefix and tok = None
        and fs = "[]", OF 1]
      list_pages_last [where srv = two_days and pre = archive_prefix and tok = "Some ''page2''"
        and fs = "[day1]", OF 2]
    by (simp add: z)
qed

lemma day_order: "day1 \<le> day2"
  by (simp add: day1_def day2_def archive_prefix_def less_eq_char_def less_char_def)

lemma two_days_listing:
  "get_file_list_from_s3_bucket two_days archive_prefix = Some (Inr [day1, day2])"
  using day_order by (simp add: get_file_list_from_s3_bucket_def two_days_pages)

lemma bind_Inr: "bind m f = Inr y \<longleftrightarrow> (\<exists>x. m = Inr x \<and> f x = Inr y)"
  by (cases m) (simp_all add: bind_def)

lemma bind_simps [simp]: "bind (Inl e) f = Inl e" "bind (Inr x) f = f x"
  by (simp_all add: bind_def)

lemma download_rest_prefix:
  "download_rest w urls df = Inr df' \<Longrightarrow> prefix df df'"
proof (induction urls arbitrary: df)
  case Nil
  then show ?case by simp
next
  case (Cons url urls)
  from Cons.prems obtain temp_df where "download_rest w urls (df @ temp_df) = Inr df'"
    by (auto simp: bind_Inr)
  from Cons.IH [OF this] show ?case by (rule append_prefixD)
qed

lemma sort_first:
  assumes "sort xs = f # fs"
  shows "\<forall>g \<in> set xs. f \<le> g"
proof -
  have "sorted (sort xs)" "set (sort xs) = set xs" by simp_all
  then have "sorted (f # fs)" "set (f # fs) = set xs" using assms by simp_all
  then show ?thesis by auto
qed

lemma get_file_list_first:
  assumes "get_file_list_from_s3_bucket srv pre = Some (Inr (f # fs))"
  shows "\<forall>g \<in> set fs. f \<le> g"
proof -
  from assms obtain xs where "sort xs = f # fs"
    by (auto simp: get_file_list_from_s3_bucket_def split: option.splits sum.splits)
  from sort_first [OF this] have "\<forall>g \<in> set (sort xs). f \<le> g" by simp
  then show ?thesis using \<open>sort xs = f # fs\<close> by simp
qed

lemma sample_prefix [simp]: "get_prefix sample_downloader = archive_prefix"
  by (simp add: sample_downloader_def get_prefix_def init_realtime_def archive_prefix_def)

lemma endswith_csv:
  "endswith ''BTCUSDT-1m-2024-01-01.csv'' ''.csv''" "endswith ''BTCUSDT-1m-2024-01-02.csv'' ''.csv''"
  by (simp_all add: endswith_def)

lemma day_neq: "day1 \<noteq> day2"
  by (simp add: day1_def day2_def)

lemma download_day1:
  "bind (download_file two_days_web (BINANCE_DATA_DOWNLOAD_BASE_URL @ ''/'' @ day1)) read_csv
     = Inr [row 1000, row 2000]"
  by (simp add: download_file_def two_days_web_def read_csv_def endswith_csv)

lemma download_day2:
  "bind (download_file two_days_web (BINANCE_DATA_DOWNLOAD_BASE_URL @ ''/'' @ day2)) read_csv
     = Inr [row 3000, row 4000]"
  using day_neq by (simp add: download_file_def two_days_web_def read_csv_def endswith_csv)

lemma rows_ok_sample: "rows_ok sample_py [row 1000, row 2000, row 3000, row 4000]"
  by (simp add: rows_ok_def row_def new_row_def candle_def sample_py_def)

lemma rows_ok_append: "rows_ok py (xs @ ys) \<longleftrightarrow> rows_ok py xs \<and> rows_ok py ys"
  by (simp add: rows_ok_def)

lemma sample_rt_downloader [simp]: "historical_downloader sample_rt = sample_downloader"
  by (simp add: sample_rt_def sample_downloader_def)

lemma sample_env_fields [simp]:
  "builtin_fns (sample_env answer srv feed) = sample_py"
  "s3 (sample_env answer srv feed) = srv"
  "download_server (sample_env answer srv feed) = two_days_web"
  "socket (sample_env answer srv feed) = feed"
  by (simp_all add: sample_env_def)




lemma get_historical_today_data_socket [simp]:
  "get_historical_today_data (e\<lparr>socket := f\<rparr>) rt = get_historical_today_data e rt"
  by (simp add: get_historical_today_data_def cong: sum.case_cong if_cong)

lemma get_complete_today_data_socket [simp]:
  "get_complete_today_data (e\<lparr>socket := f\<rparr>) rt = get_complete_today_data e rt"
  by (simp add: get_complete_today_data_def cong: sum.case_cong prod.case_cong)

lemma initialize_data_socket [simp]:
  "initialize_data (e\<lparr>socket := f\<rparr>) rt s = initialize_data e rt s"
  by (simp add: initialize_data_def)




subsection \<open>The first file of the listing\<close>

text \<open>
  Claim C10. When the listing returns a non-empty sorted list of files and the first one
  downloads and reads as \<open>rows0\<close> with timestamps that \<open>datetime\<close> accepts, then
  \<open>get_polars_df\<close> with \<open>nfiles=0\<close> and with \<open>nfiles=1\<close> returns exactly \<open>rows0\<close>;
  for every \<open>nfiles\<close>, a frame that \<open>get_polars_df\<close> returns begins with \<open>rows0\<close>;
  and the first file is the least of the listing in the order of strings.
\<close>

theorem first_file_always_loaded:
  assumes "get_file_list_from_s3_bucket srv (get_prefix d) = Some (Inr (f # fs))"
    and "bind (download_file w (BINANCE_DATA_DOWNLOAD_BASE_URL @ ''/'' @ f)) read_csv = Inr rows0"
    and "rows_ok py rows0"
  shows "get_polars_df py srv w d (Some 0) = Some (Inr rows0)
     \<and> get_polars_df py srv w d (Some 1) = Some (Inr rows0)
     \<and> (\<forall>nfiles df. get_polars_df py srv w d nfiles = Some (Inr df) \<longrightarrow> prefix rows0 df)
     \<and> (\<forall>g \<in> set fs. f \<le> g)"
proof -
  have gen: "get_polars_df py srv w d nfiles =
      Some (bind (download_rest w
                    (drop 1 (case nfiles of None \<Rightarrow> create_download_urls (f # fs)
                             | Some n \<Rightarrow> slice_to n (create_download_urls (f # fs)))) rows0)
              (\<lambda>df. if rows_ok py df then Inr df else Inl OverflowError))" for nfiles
    using assms(1,2)
    by (cases nfiles) (simp_all add: get_polars_df_def create_download_urls_def Let_def rows_ok_def)
  have 0: "get_polars_df py srv w d (Some 0) = Some (Inr rows0)"
    using assms(3) by (simp add: gen slice_to_def)
  have 1: "get_polars_df py srv w d (Some 1) = Some (Inr rows0)"
    using assms(3) by (simp add: gen slice_to_def create_download_urls_def)
  have 2: "prefix rows0 df" if "get_polars_df py srv w d nfiles = Some (Inr df)" for nfiles df
    using that unfolding gen
    by (auto simp: bind_Inr split: if_splits dest: download_rest_prefix)
  show ?thesis using 0 1 2 get_file_list_first [OF assms(1)] by blast
qed

theorem first_file_always_loaded_witness:
  "get_file_list_from_s3_bucket two_days (get_prefix sample_downloader) = Some (Inr [day1, day2])
   \<and> bind (download_file two_days_web (BINANCE_DATA_DOWNLOAD_BASE_URL @ ''/'' @ day1)) read_csv
       = Inr [row 1000, row 2000]
   \<and> rows_ok sample_py [row 1000, row 2000]
   \<and> get_polars_df sample_py two_days two_days_web sample_downloader (Some 0)
       = Some (Inr [row 1000, row 2000])
   \<and> get_polars_df sample_py two_days two_days_web sample_downloader (Some 1)
       = Some (Inr [row 1000, row 2000])
   \<and> get_polars_df sample_py two_days two_days_web sample_downloader None
       = Some (Inr [row 1000, row 2000, row 3000, row 4000])
   \<and> prefix [row 1000, row 2000] [row 1000, row 2000, row 3000, row 4000]
   \<and> day1 \<le> day2"
proof -
  have l: "get_file_list_from_s3_bucket two_days (get_prefix sample_downloader)
      = Some (Inr [day1, day2])"
    by (simp add: two_days_listing)
  have r: "rows_ok sample_py [row 1000, row 2000]"
    using rows_ok_sample rows_ok_append [of sample_py "[row 1000, row 2000]" "[row 3000, row 4000]"]
    by simp
  have n: "get_polars_df sample_py two_days two_days_web sample_downloader None
       = Some (Inr [row 1000, row 2000, row 3000, row 4000])"
    using rows_ok_sample download_day1 download_day2
    by (simp add: get_polars_df_def two_days_listing create_download_urls_def rows_ok_def)
  from first_file_always_loaded [OF l download_day1 r]
  show ?thesis using l download_day1 r n by simp
qed

subsection \<open>Where the trailing context comes from\<close>


subsection \<open>A backfill without lines, an archive that fails\<close>




subsection \<open>A connection that breaks\<close>




end
